theory Spec2Isabelle
  imports Complex_Main
begin

section \<open>Python and torch values\<close>

text \<open>
  Exceptions that can escape from the script: Python's own \<open>ZeroDivisionError\<close> and
  \<open>IndexError\<close>, and the \<open>RuntimeError\<close> torch raises on a shape it does not accept.
\<close>

datatype error = ZeroDivisionError | IndexError | RuntimeError

text \<open>
  A floating point number. Finite values are idealised as reals (rounding is not
  modelled); \<open>NonFinite\<close> stands for \<open>inf\<close>, \<open>-inf\<close> and \<open>nan\<close>, which torch returns
  where HOL's division by zero would return 0.
\<close>

datatype pyfloat = Finite real | NonFinite

fun float_add :: "pyfloat \<Rightarrow> pyfloat \<Rightarrow> pyfloat" where
  "float_add (Finite a) (Finite b) = Finite (a + b)"
| "float_add _ _ = NonFinite"

text \<open>Python's \<open>x / n\<close> for a float \<open>x\<close> and an int \<open>n\<close>: it raises when \<open>n\<close> is 0.\<close>

fun float_div_int :: "pyfloat \<Rightarrow> nat \<Rightarrow> error + pyfloat" where
  "float_div_int x 0 = Inl ZeroDivisionError"
| "float_div_int (Finite a) (Suc n) = Inr (Finite (a / real (Suc n)))"
| "float_div_int NonFinite (Suc n) = Inr NonFinite"

type_synonym tensor2 = "real list list"
type_synonym tensor3 = "real list list list"

text \<open>\<open>xs[a:b]\<close> for non-negative \<open>a\<close> and \<open>b\<close>: bounds past the end are clamped.\<close>

definition py_slice :: "nat \<Rightarrow> nat \<Rightarrow> 'a list \<Rightarrow> 'a list" where
  "py_slice a b xs = take (b - a) (drop a xs)"

text \<open>\<open>xs[-1]\<close>: the last element, \<open>IndexError\<close> on an empty sequence.\<close>

definition py_last :: "'a list \<Rightarrow> error + 'a" where
  "py_last xs = (if xs = [] then Inl IndexError else Inr (last xs))"

definition py_range :: "nat \<Rightarrow> nat list" where
  "py_range n = [0..<n]"

text \<open>
  A \<open>for\<close> loop over a list of indices whose body may raise: the first exception ends
  the loop.
\<close>

fun for_loop :: "nat list \<Rightarrow> (nat \<Rightarrow> 's \<Rightarrow> error + 's) \<Rightarrow> 's \<Rightarrow> error + 's" where
  "for_loop [] body s = Inr s"
| "for_loop (i # js) body s =
     (case body i s of Inl e \<Rightarrow> Inl e | Inr s' \<Rightarrow> for_loop js body s')"

text \<open>
  \<open>torch.max(t, 1)[1]\<close>: for each row of a 2-D tensor the index of its maximum, the
  first one when the maximum occurs several times. torch raises when the reduced
  dimension has size 0.
\<close>

fun first_index :: "'a list \<Rightarrow> 'a \<Rightarrow> nat" where
  "first_index [] v = 0"
| "first_index (x # xs) v = (if x = v then 0 else Suc (first_index xs v))"

definition argmax :: "('a::linorder) list \<Rightarrow> nat" where
  "argmax row = first_index row (Max (set row))"

definition torch_max_dim1 :: "('a::linorder) list list \<Rightarrow> error + nat list" where
  "torch_max_dim1 t = (if [] \<in> set t then Inl RuntimeError else Inr (map argmax t))"

text \<open>\<open>torch.zeros(a, b, c)\<close>.\<close>

definition torch_zeros :: "nat \<Rightarrow> nat \<Rightarrow> nat \<Rightarrow> tensor3" where
  "torch_zeros a b c = replicate a (replicate b (replicate c 0))"

text \<open>\<open>F.log_softmax(t, dim=1)\<close> on a 2-D tensor, over the reals.\<close>

definition log_softmax_row :: "real list \<Rightarrow> real list" where
  "log_softmax_row row = map (\<lambda>x. x - ln (\<Sum>v\<leftarrow>row. exp v)) row"

definition log_softmax :: "tensor2 \<Rightarrow> tensor2" where
  "log_softmax t = map log_softmax_row t"

text \<open>\<open>t.permute(1, 0, 2)\<close> on a 3-D tensor: the first two axes are exchanged.\<close>

definition permute_1_0_2 :: "tensor3 \<Rightarrow> tensor3" where
  "permute_1_0_2 t = transpose t"

text \<open>
  The torch calls whose code is not part of the script, taken as parameters:
  the \<open>nn.LSTM\<close> and \<open>nn.Linear\<close> modules applied with the weights \<open>'w\<close>,
  \<open>nn.NLLLoss\<close>, and \<open>loss.backward()\<close> followed by \<open>optimizer.step()\<close>, which
  differentiates the loss as a function of the weights at the current weights and
  returns the new optimizer state \<open>'o\<close> and weights. \<open>format_float n\<close> is Python's
  \<open>%.nf\<close>.
\<close>

record ('w, 'o) torch =
  nn_LSTM :: "'w \<Rightarrow> tensor3 \<Rightarrow> error + tensor3"
  nn_Linear :: "'w \<Rightarrow> tensor2 \<Rightarrow> error + tensor2"
  NLLLoss :: "tensor2 \<Rightarrow> nat list \<Rightarrow> error + pyfloat"
  backward_step :: "'o \<Rightarrow> ('w \<Rightarrow> error + pyfloat) \<Rightarrow> 'w \<Rightarrow> 'o \<times> 'w"
  format_float :: "nat \<Rightarrow> pyfloat \<Rightarrow> string"

section \<open>Cache check at startup\<close>

record GenreFeatureData =
  train_X_preprocessed_data :: string
  train_Y_preprocessed_data :: string
  dev_X_preprocessed_data :: string
  dev_Y_preprocessed_data :: string
  test_X_preprocessed_data :: string
  test_Y_preprocessed_data :: string

text \<open>The two loader methods of \<open>GenreFeatureData\<close> the script can call.\<close>

datatype loader_call = load_deserialize_data | load_preprocess_data

text \<open>
  The \<open>if\<close> at the top of the script, with \<open>os.path.isfile\<close> as a parameter: the
  line printed and the loader method called.
\<close>

definition startup :: "(string \<Rightarrow> bool) \<Rightarrow> GenreFeatureData \<Rightarrow> string \<times> loader_call" where
  "startup isfile genre_features =
     (if isfile (train_X_preprocessed_data genre_features)
         \<and> isfile (train_Y_preprocessed_data genre_features)
         \<and> isfile (dev_X_preprocessed_data genre_features)
         \<and> isfile (dev_Y_preprocessed_data genre_features)
         \<and> isfile (test_X_preprocessed_data genre_features)
         \<and> isfile (test_Y_preprocessed_data genre_features)
      then (''Preprocessed files exist, deserializing npy files'', load_deserialize_data)
      else (''Preprocessing raw audio files'', load_preprocess_data))"

section \<open>The model class\<close>

text \<open>
  The attributes of an \<open>LSTM\<close> instance. \<open>weights\<close> stands for the two submodules
  \<open>self.lstm\<close> and \<open>self.linear\<close> (the model's parameters); \<open>hidden\<close> is the
  attribute the training loop assigns, absent until then.
\<close>

record 'w LSTM =
  input_dim :: nat
  hidden_dim :: nat
  batch_size :: nat
  num_layers :: nat
  weights :: 'w
  hidden :: "(tensor3 \<times> tensor3) option"

definition init_hidden :: "'w LSTM \<Rightarrow> tensor3 \<times> tensor3" where
  "init_hidden self =
     (torch_zeros (num_layers self) (batch_size self) (hidden_dim self),
      torch_zeros (num_layers self) (batch_size self) (hidden_dim self))"

definition forward :: "('w, 'o) torch \<Rightarrow> 'w LSTM \<Rightarrow> tensor3 \<Rightarrow> error + tensor2" where
  "forward tb self input =
     (case nn_LSTM tb (weights self) input of
        Inl e \<Rightarrow> Inl e
      | Inr lstm_out \<Rightarrow>
          (case py_last lstm_out of
             Inl e \<Rightarrow> Inl e
           | Inr input_to_linear \<Rightarrow>
               (case nn_Linear tb (weights self) input_to_linear of
                  Inl e \<Rightarrow> Inl e
                | Inr y_pred \<Rightarrow> Inr (log_softmax y_pred))))"

text \<open>
  \<open>get_accuracy\<close>: \<open>view(target.size())\<close> raises when the number of predictions is not
  the number of targets. The arithmetic is torch's, with its type promotion: the
  product with \<open>100.0\<close> is a float tensor and the division is true division, so a
  \<open>batch_size\<close> of 0 gives \<open>inf\<close> or \<open>nan\<close>, not an exception.
\<close>

definition corrects :: "nat list \<Rightarrow> int list \<Rightarrow> nat" where
  "corrects pred target = length (filter (\<lambda>(p, t). int p = t) (zip pred target))"

definition get_accuracy :: "'w LSTM \<Rightarrow> tensor2 \<Rightarrow> int list \<Rightarrow> error + pyfloat" where
  "get_accuracy self logits target =
     (case torch_max_dim1 logits of
        Inl e \<Rightarrow> Inl e
      | Inr pred \<Rightarrow>
          if length pred \<noteq> length target then Inl RuntimeError
          else if batch_size self = 0 then Inr NonFinite
          else Inr (Finite (100 * real (corrects pred target) / real (batch_size self))))"

section \<open>The training script\<close>

definition main_batch_size :: nat where
  "main_batch_size = 35"

definition num_epochs :: nat where
  "num_epochs = 400"

text \<open>
  The tensors the script builds from \<open>genre_features\<close> before training: examples
  \<open>[N, sequence_length, input_dim]\<close> and labels \<open>[N, classes]\<close> (a \<open>LongTensor\<close>).
\<close>

record tensors =
  train_X :: tensor3
  train_Y :: "int list list"
  test_X :: tensor3
  test_Y :: "int list list"

text \<open>The variables the loop assigns, and the lines it has printed.\<close>

record ('w, 'o) train_state =
  model :: "'w LSTM"
  optimizer :: 'o
  train_running_loss :: pyfloat
  train_acc :: pyfloat
  stdout :: "string list"

text \<open>
  \<open>int(train_X.shape[0] / batch_size)\<close>: true division, then truncation (both
  operands are non-negative).
\<close>

definition num_batches :: "tensors \<Rightarrow> nat" where
  "num_batches g = nat \<lfloor>real (length (train_X g)) / real main_batch_size\<rfloor>"

text \<open>\<open>%d\<close> of a non-negative integer.\<close>

fun format_d :: "nat \<Rightarrow> string" where
  "format_d n =
     (if n < 10 then [''0123456789'' ! n]
      else format_d (n div 10) @ [''0123456789'' ! (n mod 10)])"

declare format_d.simps [simp del]

definition epoch_line :: "('w, 'o) torch \<Rightarrow> nat \<Rightarrow> pyfloat \<Rightarrow> pyfloat \<Rightarrow> string" where
  "epoch_line tb epoch l a =
     ''Epoch:  '' @ format_d epoch @ '' | NLLoss: '' @ format_float tb 4 l
       @ '' | Train Accuracy: '' @ format_float tb 2 a"

text \<open>
  The body of the inner loop from \<open>permute\<close> on, for the two slices taken at its
  start. \<open>model.zero_grad()\<close> keeps the gradients of earlier minibatches out, so the
  update depends on this minibatch alone; the function handed to \<open>backward_step\<close>
  is the loss of this minibatch as the script computes it, with the weights as the
  variable.
\<close>

definition train_on_minibatch ::
  "('w, 'o) torch \<Rightarrow> tensor3 \<Rightarrow> int list list \<Rightarrow> ('w, 'o) train_state
     \<Rightarrow> error + ('w, 'o) train_state" where
  "train_on_minibatch tb X_slice y_slice s =
     (let X_local_minibatch = permute_1_0_2 X_slice
      in case torch_max_dim1 y_slice of
           Inl e \<Rightarrow> Inl e
         | Inr y_local_minibatch \<Rightarrow>
             (case forward tb (model s) X_local_minibatch of
                Inl e \<Rightarrow> Inl e
              | Inr y_pred \<Rightarrow>
                  (case NLLLoss tb y_pred y_local_minibatch of
                     Inl e \<Rightarrow> Inl e
                   | Inr loss \<Rightarrow>
                       (let (opt', w') =
                              backward_step tb (optimizer s)
                                (\<lambda>w. case forward tb ((model s)\<lparr>weights := w\<rparr>) X_local_minibatch of
                                       Inl e \<Rightarrow> Inl e
                                     | Inr p \<Rightarrow> NLLLoss tb p y_local_minibatch)
                                (weights (model s));
                            model' = (model s)\<lparr>weights := w'\<rparr>
                        in case get_accuracy model' y_pred (map int y_local_minibatch) of
                             Inl e \<Rightarrow> Inl e
                           | Inr acc \<Rightarrow>
                               Inr (s\<lparr>model := model', optimizer := opt',
                                      train_running_loss := float_add (train_running_loss s) loss,
                                      train_acc := float_add (train_acc s) acc\<rparr>)))))"

text \<open>The body of the inner loop for minibatch \<open>i\<close>: the two slices, then the rest.\<close>

definition minibatch_step ::
  "('w, 'o) torch \<Rightarrow> tensors \<Rightarrow> nat \<Rightarrow> ('w, 'o) train_state \<Rightarrow> error + ('w, 'o) train_state" where
  "minibatch_step tb g i s =
     train_on_minibatch tb
       (py_slice (i * main_batch_size) ((i + 1) * main_batch_size) (train_X g))
       (py_slice (i * main_batch_size) ((i + 1) * main_batch_size) (train_Y g)) s"

text \<open>The inner loop: \<open>for i in range(num_batches)\<close>.\<close>

definition run_batches ::
  "('w, 'o) torch \<Rightarrow> tensors \<Rightarrow> ('w, 'o) train_state \<Rightarrow> error + ('w, 'o) train_state" where
  "run_batches tb g s = for_loop (py_range (num_batches g)) (minibatch_step tb g) s"

text \<open>The statements of an epoch before its minibatches.\<close>

definition epoch_reset :: "('w, 'o) train_state \<Rightarrow> ('w, 'o) train_state" where
  "epoch_reset s =
     s\<lparr>train_running_loss := Finite 0, train_acc := Finite 0,
        model := (model s)\<lparr>hidden := Some (init_hidden (model s))\<rparr>\<rparr>"

text \<open>The \<open>print\<close> that ends an epoch; each division can raise.\<close>

definition epoch_print ::
  "('w, 'o) torch \<Rightarrow> tensors \<Rightarrow> nat \<Rightarrow> ('w, 'o) train_state \<Rightarrow> error + ('w, 'o) train_state" where
  "epoch_print tb g epoch s =
     (case float_div_int (train_running_loss s) (num_batches g) of
        Inl e \<Rightarrow> Inl e
      | Inr l \<Rightarrow>
          (case float_div_int (train_acc s) (num_batches g) of
             Inl e \<Rightarrow> Inl e
           | Inr a \<Rightarrow> Inr (s\<lparr>stdout := stdout s @ [epoch_line tb epoch l a]\<rparr>)))"

definition run_epoch ::
  "('w, 'o) torch \<Rightarrow> tensors \<Rightarrow> nat \<Rightarrow> ('w, 'o) train_state \<Rightarrow> error + ('w, 'o) train_state" where
  "run_epoch tb g epoch s =
     (case run_batches tb g (epoch_reset s) of
        Inl e \<Rightarrow> Inl e
      | Inr s' \<Rightarrow> epoch_print tb g epoch s')"

text \<open>The outer loop: \<open>for epoch in range(num_epochs)\<close>.\<close>

definition training_loop ::
  "('w, 'o) torch \<Rightarrow> tensors \<Rightarrow> ('w, 'o) train_state \<Rightarrow> error + ('w, 'o) train_state" where
  "training_loop tb g s = for_loop (py_range num_epochs) (run_epoch tb g) s"

text \<open>
  The model and the variables as the script has them when the loop starts, for
  initial weights \<open>w0\<close> and optimizer state \<open>o0\<close>.
\<close>

definition main_model :: "'w \<Rightarrow> 'w LSTM" where
  "main_model w0 =
     \<lparr>input_dim = 33, hidden_dim = 128, batch_size = main_batch_size, num_layers = 2,
      weights = w0, hidden = None\<rparr>"

definition initial_state :: "'w \<Rightarrow> 'o \<Rightarrow> ('w, 'o) train_state" where
  "initial_state w0 o0 =
     \<lparr>model = main_model w0, optimizer = o0, train_running_loss = Finite 0,
      train_acc = Finite 0, stdout = []\<rparr>"

section \<open>Notions the properties are stated with\<close>

text \<open>A one-hot label row: all entries 0 but a single 1, at index \<open>k\<close>.\<close>

definition one_hot :: "int list \<Rightarrow> nat \<Rightarrow> bool" where
  "one_hot row k = (k < length row \<and> row = (replicate (length row) 0)[k := 1])"



text \<open>
  The script with the statement \<open>model.hidden = model.init_hidden()\<close> removed: the
  epoch resets the two accumulators only.
\<close>

definition epoch_reset_no_reinit :: "('w, 'o) train_state \<Rightarrow> ('w, 'o) train_state" where
  "epoch_reset_no_reinit s = s\<lparr>train_running_loss := Finite 0, train_acc := Finite 0\<rparr>"

definition run_epoch_no_reinit ::
  "('w, 'o) torch \<Rightarrow> tensors \<Rightarrow> nat \<Rightarrow> ('w, 'o) train_state \<Rightarrow> error + ('w, 'o) train_state" where
  "run_epoch_no_reinit tb g epoch s =
     (case run_batches tb g (epoch_reset_no_reinit s) of
        Inl e \<Rightarrow> Inl e
      | Inr s' \<Rightarrow> epoch_print tb g epoch s')"

definition training_loop_no_reinit ::
  "('w, 'o) torch \<Rightarrow> tensors \<Rightarrow> ('w, 'o) train_state \<Rightarrow> error + ('w, 'o) train_state" where
  "training_loop_no_reinit tb g s = for_loop (py_range num_epochs) (run_epoch_no_reinit tb g) s"

text \<open>
  What a run shows: the exception, or the weights, the optimizer state, the two
  accumulators and the printed lines it ends with.
\<close>

definition observable ::
  "error + ('w, 'o) train_state \<Rightarrow> error + ('w \<times> 'o \<times> pyfloat \<times> pyfloat \<times> string list)" where
  "observable r =
     (case r of
        Inl e \<Rightarrow> Inl e
      | Inr s \<Rightarrow>
          Inr (weights (model s), optimizer s, train_running_loss s, train_acc s, stdout s))"

text \<open>The per-epoch line with a single space after each colon.\<close>

definition single_space_line :: "('w, 'o) torch \<Rightarrow> nat \<Rightarrow> pyfloat \<Rightarrow> pyfloat \<Rightarrow> string" where
  "single_space_line tb epoch l a =
     ''Epoch: '' @ format_d epoch @ '' | NLLoss: '' @ format_float tb 4 l
       @ '' | Train Accuracy: '' @ format_float tb 2 a"

text \<open>Shapes of nested lists read as tensors.\<close>

definition shape2 :: "tensor2 \<Rightarrow> nat \<Rightarrow> nat \<Rightarrow> bool" where
  "shape2 t a b = (length t = a \<and> list_all (\<lambda>row. length row = b) t)"

definition shape3 :: "tensor3 \<Rightarrow> nat \<Rightarrow> nat \<Rightarrow> nat \<Rightarrow> bool" where
  "shape3 t a b c = (length t = a \<and> list_all (\<lambda>m. shape2 m b c) t)"


text \<open>
  A stand-in for torch, for running the definitions: layers that return their input,
  a constant loss, an update that counts the steps.
\<close>

definition toy_torch :: "(unit, nat) torch" where
  "toy_torch =
     \<lparr>nn_LSTM = (\<lambda>w x. Inr x), nn_Linear = (\<lambda>w x. Inr x),
      NLLLoss = (\<lambda>p y. Inr (Finite 1)),
      backward_step = (\<lambda>opt f w. (Suc opt, w)),
      format_float = (\<lambda>n x. ''?'')\<rparr>"

text \<open>A cache directory description to run the startup check on.\<close>

definition example_paths :: GenreFeatureData where
  "example_paths =
     \<lparr>train_X_preprocessed_data = ''a'', train_Y_preprocessed_data = ''b'',
      dev_X_preprocessed_data = ''c'', dev_Y_preprocessed_data = ''d'',
      test_X_preprocessed_data = ''e'', test_Y_preprocessed_data = ''f''\<rparr>"

text \<open>A state with the \<open>hidden\<close> attribute of its model removed.\<close>

definition forget_hidden :: "('w, 'o) train_state \<Rightarrow> ('w, 'o) train_state" where
  "forget_hidden s = s\<lparr>model := (model s)\<lparr>hidden := None\<rparr>\<rparr>"

text \<open>
  The line of one epoch of a run from \<open>s\<close>: the epochs before it ran from \<open>s\<close> to
  \<open>s_start\<close>, this epoch's minibatches from there to \<open>s_end\<close>, and the line shows the
  epoch's number and the two accumulators of \<open>s_end\<close>, each divided by
  \<open>num_batches\<close>, with two spaces after \<open>Epoch:\<close>.
\<close>

definition epoch_report ::
  "('w, 'o) torch \<Rightarrow> tensors \<Rightarrow> ('w, 'o) train_state \<Rightarrow> nat \<Rightarrow> string \<Rightarrow> bool" where
  "epoch_report tb g s epoch line =
     (\<exists>s_start s_end l a.
        for_loop (py_range epoch) (run_epoch tb g) s = Inr s_start
        \<and> run_batches tb g (epoch_reset s_start) = Inr s_end
        \<and> float_div_int (train_running_loss s_end) (num_batches g) = Inr l
        \<and> float_div_int (train_acc s_end) (num_batches g) = Inr a
        \<and> line = ''Epoch:  '' @ format_d epoch @ '' | NLLoss: '' @ format_float tb 4 l
                   @ '' | Train Accuracy: '' @ format_float tb 2 a)"

text \<open>
  Training sets to run the definitions on: 36 examples of one time step and one
  feature, the same with another last example and label, and 34 examples.
\<close>

definition example_tensors :: tensors where
  "example_tensors =
     \<lparr>train_X = replicate 36 [[0]], train_Y = replicate 36 [1],
      test_X = [], test_Y = []\<rparr>"


definition small_tensors :: tensors where
  "small_tensors =
     \<lparr>train_X = replicate 34 [[0]], train_Y = replicate 34 [1],
      test_X = [], test_Y = []\<rparr>"

section \<open>The cache check\<close>

text \<open>
  C5. At startup the script calls \<open>load_deserialize_data\<close> exactly when all six cache
  files exist, and \<open>load_preprocess_data\<close>, the method that regenerates all six arrays,
  exactly when at least one of them is missing. One of the two methods is called, for
  the whole cache: nothing is reused file by file.
\<close>

theorem cache_all_or_nothing:
  "(snd (startup isfile gf) = load_deserialize_data
      \<longleftrightarrow> (isfile (train_X_preprocessed_data gf) \<and> isfile (train_Y_preprocessed_data gf)
           \<and> isfile (dev_X_preprocessed_data gf) \<and> isfile (dev_Y_preprocessed_data gf)
           \<and> isfile (test_X_preprocessed_data gf) \<and> isfile (test_Y_preprocessed_data gf)))
   \<and> (snd (startup isfile gf) = load_preprocess_data
      \<longleftrightarrow> (\<not> isfile (train_X_preprocessed_data gf) \<or> \<not> isfile (train_Y_preprocessed_data gf)
           \<or> \<not> isfile (dev_X_preprocessed_data gf) \<or> \<not> isfile (dev_Y_preprocessed_data gf)
           \<or> \<not> isfile (test_X_preprocessed_data gf) \<or> \<not> isfile (test_Y_preprocessed_data gf)))"
  by (simp add: startup_def)

theorem cache_all_or_nothing_witness:
  "snd (startup (\<lambda>p. p \<noteq> ''d'') example_paths) = load_preprocess_data
   \<and> snd (startup (\<lambda>p. True) example_paths) = load_deserialize_data"
  using cache_all_or_nothing[of "\<lambda>p. p \<noteq> ''d''" example_paths]
    cache_all_or_nothing[of "\<lambda>p. True" example_paths]
  by (simp add: example_paths_def)

section \<open>Label conversion\<close>

lemma first_index_eq:
  "k < length xs \<Longrightarrow> xs ! k = v \<Longrightarrow> (\<And>j. j < k \<Longrightarrow> xs ! j \<noteq> v) \<Longrightarrow> first_index xs v = k"
proof (induction xs arbitrary: k)
  case Nil
  then show ?case by simp
next
  case (Cons x xs)
  show ?case
  proof (cases k)
    case 0
    with Cons.prems show ?thesis by simp
  next
    case (Suc k')
    have "x \<noteq> v" using Cons.prems(3)[of 0] Suc by simp
    moreover have "first_index xs v = k'"
    proof (rule Cons.IH)
      show "k' < length xs" using Cons.prems(1) Suc by simp
      show "xs ! k' = v" using Cons.prems(2) Suc by simp
      fix j assume "j < k'"
      then show "xs ! j \<noteq> v" using Cons.prems(3)[of "Suc j"] Suc by simp
    qed
    ultimately show ?thesis using Suc by simp
  qed
qed

lemma one_hot_nth:
  assumes "one_hot row k" and "j < length row"
  shows "row ! j = (if j = k then 1 else 0)"
proof -
  have r: "row = (replicate (length row) 0)[k := 1]" using assms(1) by (simp add: one_hot_def)
  have "row ! j = (replicate (length row) 0)[k := 1] ! j"
    by (rule arg_cong[OF r, of "\<lambda>xs. xs ! j"])
  also have "\<dots> = (if j = k then 1 else 0)"
    using assms(2) by (simp add: nth_list_update)
  finally show ?thesis .
qed

lemma one_hot_Max:
  assumes "one_hot row k"
  shows "Max (set row) = 1"
proof (rule Max_eqI)
  show "finite (set row)" by simp
  have k: "k < length row" using assms by (simp add: one_hot_def)
  then have "row ! k = 1" using one_hot_nth[OF assms k] by simp
  then show "1 \<in> set row" using k by (metis nth_mem)
  fix y assume "y \<in> set row"
  then obtain j where j: "j < length row" "row ! j = y" by (auto simp: in_set_conv_nth)
  then show "y \<le> 1" using one_hot_nth[OF assms j(1)] by (simp split: if_splits)
qed

lemma argmax_one_hot:
  assumes "one_hot row k"
  shows "argmax row = k"
proof -
  have k: "k < length row" using assms by (simp add: one_hot_def)
  have "first_index row 1 = k"
  proof (rule first_index_eq[OF k])
    show "row ! k = 1" using one_hot_nth[OF assms k] by simp
    fix j assume "j < k"
    then show "row ! j \<noteq> 1" using one_hot_nth[OF assms, of j] k by simp
  qed
  then show ?thesis by (simp add: argmax_def one_hot_Max[OF assms])
qed

text \<open>
  C6. The label conversion of a minibatch, \<open>torch.max(y, 1)[1]\<close>, maps every one-hot
  row to the index of its single 1: a minibatch \<open>Y\<close> whose row \<open>i\<close> is one-hot at
  \<open>ks ! i\<close> converts to \<open>ks\<close>. The row \<open>[0,0,1,0,0,0,0,0]\<close> converts to 2.
\<close>

theorem label_conversion:
  "(length ks = length Y \<and> (\<forall>i<length Y. one_hot (Y ! i) (ks ! i))
      \<longrightarrow> torch_max_dim1 Y = Inr ks)
   \<and> torch_max_dim1 [[0, 0, 1, 0, 0, 0, 0, 0 :: int]] = Inr [2]"
proof (intro conjI impI)
  assume a: "length ks = length Y \<and> (\<forall>i<length Y. one_hot (Y ! i) (ks ! i))"
  have "[] \<notin> set Y"
  proof
    assume "[] \<in> set Y"
    then obtain i where "i < length Y" "Y ! i = []" by (auto simp: in_set_conv_nth)
    with a show False by (auto simp: one_hot_def)
  qed
  moreover have "map argmax Y = ks"
    using a by (intro nth_equalityI) (simp_all add: argmax_one_hot)
  ultimately show "torch_max_dim1 Y = Inr ks" by (simp add: torch_max_dim1_def)
next
  show "torch_max_dim1 [[0, 0, 1, 0, 0, 0, 0, 0 :: int]] = Inr [2]"
    by (simp add: argmax_def torch_max_dim1_def)
qed

theorem label_conversion_witness:
  "one_hot [0, 1, 0] 1 \<and> one_hot [1, 0, 0] 0
   \<and> torch_max_dim1 [[0, 1, 0], [1, 0, 0 :: int]] = Inr [1, 0]"
proof -
  have a: "one_hot [0, 1, 0] 1" by (simp add: one_hot_def)
  have b: "one_hot [1, 0, 0] 0" by (simp add: one_hot_def)
  have "\<forall>i<length [[0, 1, 0], [1, 0, 0 :: int]]. one_hot ([[0, 1, 0], [1, 0, 0]] ! i) ([1, 0] ! i)"
    using a b by (simp add: less_Suc_eq)
  then show ?thesis
    using a b label_conversion[of "[1, 0]" "[[0, 1, 0], [1, 0, 0]]"] by simp
qed

section \<open>Accuracy\<close>



lemma get_accuracy_value:
  assumes "0 < batch_size self" "[] \<notin> set logits" "length target = length logits"
  shows "get_accuracy self logits target
     = Inr (Finite (100 * real (corrects (map argmax logits) target) / real (batch_size self)))"
  using assms by (simp add: get_accuracy_def torch_max_dim1_def)



text \<open>
  C10. \<open>get_accuracy\<close> divides the number of matches by the \<open>batch_size\<close> the model was
  built with, whatever the number of elements of the target: for a target of any
  length the result is 100 times the matches over \<open>batch_size\<close>. With
  \<open>batch_size = 1\<close> and two rows, both predicted right, it returns 200.
\<close>

theorem get_accuracy_uses_model_batch_size:
  "(0 < batch_size self \<and> [] \<notin> set logits \<and> length target = length logits \<longrightarrow>
      get_accuracy self logits target
        = Inr (Finite (100 * real (corrects (map argmax logits) target) / real (batch_size self))))
   \<and> batch_size (main_model ()\<lparr>batch_size := 1\<rparr>) < length [1, 1 :: int]
   \<and> get_accuracy (main_model ()\<lparr>batch_size := 1\<rparr>) [[0, 1], [0, 1]] [1, 1] = Inr (Finite 200)"
proof (intro conjI impI)
  assume "0 < batch_size self \<and> [] \<notin> set logits \<and> length target = length logits"
  then show "get_accuracy self logits target
        = Inr (Finite (100 * real (corrects (map argmax logits) target) / real (batch_size self)))"
    by (intro get_accuracy_value) simp_all
next
  show "batch_size (main_model ()\<lparr>batch_size := 1\<rparr>) < length [1, 1 :: int]"
    by (simp add: main_model_def)
next
  show "get_accuracy (main_model ()\<lparr>batch_size := 1\<rparr>) [[0, 1], [0, 1]] [1, 1] = Inr (Finite 200)"
    by (simp add: get_accuracy_def torch_max_dim1_def argmax_def corrects_def main_model_def)
qed

theorem get_accuracy_uses_model_batch_size_witness:
  "get_accuracy (main_model ()\<lparr>batch_size := 2\<rparr>) [[0, 1], [5, 1], [2, 7]] [1, 0, 1]
     = Inr (Finite 150)"
proof -
  have "corrects (map argmax [[0, 1], [5, 1], [2, 7 :: real]]) [1, 0, 1] = 3"
    by (simp add: corrects_def argmax_def)
  then show ?thesis
    using get_accuracy_uses_model_batch_size
      [of "main_model ()\<lparr>batch_size := 2\<rparr>" "[[0, 1], [5, 1], [2, 7]]" "[1, 0, 1]"]
    by (simp add: main_model_def)
qed

section \<open>The zero state\<close>

lemma torch_zeros_nth:
  "i < a \<Longrightarrow> j < b \<Longrightarrow> k < c \<Longrightarrow> torch_zeros a b c ! i ! j ! k = 0"
  by (simp add: torch_zeros_def)

lemma torch_zeros_shape: "shape3 (torch_zeros a b c) a b c"
  by (simp add: torch_zeros_def shape3_def shape2_def list_all_length)

text \<open>
  C7. \<open>init_hidden\<close> returns two tensors of shape
  \<open>[num_layers, batch_size, hidden_dim]\<close> whose entries are all zero. It returns a value
  and no new model, and the value is a function of the three configuration attributes
  alone: two models that agree on them give the same pair.
\<close>

theorem init_hidden_zero_state:
  "shape3 (fst (init_hidden self)) (num_layers self) (batch_size self) (hidden_dim self)
   \<and> shape3 (snd (init_hidden self)) (num_layers self) (batch_size self) (hidden_dim self)
   \<and> (i < num_layers self \<and> j < batch_size self \<and> k < hidden_dim self \<longrightarrow>
        fst (init_hidden self) ! i ! j ! k = 0 \<and> snd (init_hidden self) ! i ! j ! k = 0)
   \<and> (num_layers other = num_layers self \<and> batch_size other = batch_size self
        \<and> hidden_dim other = hidden_dim self \<longrightarrow> init_hidden other = init_hidden self)"
  by (simp add: init_hidden_def torch_zeros_nth torch_zeros_shape)

theorem init_hidden_zero_state_witness:
  "fst (init_hidden (main_model ())) ! 1 ! 34 ! 127 = 0
   \<and> snd (init_hidden (main_model ())) ! 1 ! 34 ! 127 = 0
   \<and> shape3 (fst (init_hidden (main_model ()))) 2 35 128
   \<and> init_hidden (main_model ()\<lparr>weights := (), hidden := Some ([], [])\<rparr>)
       = init_hidden (main_model ())"
  using init_hidden_zero_state
    [of "main_model ()" 1 34 127 "main_model ()\<lparr>weights := (), hidden := Some ([], [])\<rparr>"]
  by (simp add: main_model_def main_batch_size_def)

section \<open>The forward pass\<close>








section \<open>Loops\<close>

lemma for_loop_append:
  "for_loop (xs @ ys) body s =
     (case for_loop xs body s of Inl e \<Rightarrow> Inl e | Inr s' \<Rightarrow> for_loop ys body s')"
  by (induction xs arbitrary: s) (simp_all split: sum.splits)


lemma for_loop_preserves:
  assumes "\<And>i s s'. body i s = Inr s' \<Longrightarrow> f s' = f s"
  shows "for_loop js body s = Inr s' \<Longrightarrow> f s' = f s"
proof (induction js arbitrary: s)
  case Nil
  then show ?case by simp
next
  case (Cons i js)
  then obtain s1 where s1: "body i s = Inr s1" "for_loop js body s1 = Inr s'"
    by (auto split: sum.splits)
  have "f s' = f s1" using Cons.IH[OF s1(2)] .
  also have "f s1 = f s" using assms[OF s1(1)] .
  finally show ?case .
qed

lemma for_loop_total:
  assumes "\<And>i s. i \<in> set js \<Longrightarrow> \<exists>s'. body i s = Inr s'"
  shows "\<exists>s'. for_loop js body s = Inr s'"
  using assms
proof (induction js arbitrary: s)
  case Nil
  show ?case by simp
next
  case (Cons i js)
  obtain s1 where s1: "body i s = Inr s1" using Cons.prems[of i s] by auto
  obtain s' where "for_loop js body s1 = Inr s'" using Cons.IH[of s1] Cons.prems by auto
  then show ?case using s1 by simp
qed

section \<open>Minibatches\<close>

lemma num_batches_div: "num_batches g = length (train_X g) div 35"
proof -
  have "\<lfloor>real (length (train_X g)) / real 35\<rfloor> = int (length (train_X g) div 35)"
    by (rule floor_divide_of_nat_eq)
  then show ?thesis by (simp add: num_batches_def main_batch_size_def)
qed










section \<open>The test tensors\<close>

text \<open>
  C9. The training loop does not read the test tensors: two runs from the same state
  whose tensors have the same \<open>train_X\<close> and \<open>train_Y\<close>, whatever \<open>test_X\<close> and
  \<open>test_Y\<close> hold, end alike, with the same exception or the same final state, and
  so the same accumulated losses and accuracies and the same printed lines.
\<close>

theorem test_data_noninterference:
  assumes "train_X g' = train_X g" and "train_Y g' = train_Y g"
  shows "training_loop tb g' s = training_loop tb g s"
proof -
  have nb: "num_batches g' = num_batches g" using assms(1) by (simp add: num_batches_def)
  have "minibatch_step tb g' = minibatch_step tb g"
    using assms by (intro ext) (simp add: minibatch_step_def)
  then have rb: "\<And>s. run_batches tb g' s = run_batches tb g s"
    by (simp add: run_batches_def nb)
  have ep: "\<And>e s. epoch_print tb g' e s = epoch_print tb g e s"
    unfolding epoch_print_def nb by (rule refl)
  have "run_epoch tb g' = run_epoch tb g"
    unfolding run_epoch_def rb ep by (rule refl)
  then show ?thesis by (simp add: training_loop_def)
qed

theorem test_data_noninterference_witness:
  "training_loop toy_torch (example_tensors\<lparr>test_X := [[[1]]], test_Y := [[0, 1]]\<rparr>)
       (initial_state () 0)
     = training_loop toy_torch example_tensors (initial_state () 0)"
  using test_data_noninterference
    [of "example_tensors\<lparr>test_X := [[[1]]], test_Y := [[0, 1]]\<rparr>" example_tensors]
  by simp

section \<open>The hidden state\<close>

lemma forward_ignores_hidden: "forward tb (self\<lparr>hidden := h\<rparr>) input = forward tb self input"
  by (simp add: forward_def cong: sum.case_cong)

lemma get_accuracy_ignores_hidden:
  "get_accuracy (self\<lparr>hidden := h\<rparr>) logits target = get_accuracy self logits target"
  by (cases "torch_max_dim1 logits") (simp_all add: get_accuracy_def)

lemma forward_ignores_hidden':
  "forward tb (self\<lparr>hidden := h, weights := w\<rparr>) input = forward tb (self\<lparr>weights := w\<rparr>) input"
  by (simp add: forward_def cong: sum.case_cong)

lemma get_accuracy_ignores_hidden':
  "get_accuracy (self\<lparr>hidden := h, weights := w\<rparr>) logits target
     = get_accuracy (self\<lparr>weights := w\<rparr>) logits target"
  by (cases "torch_max_dim1 logits") (simp_all add: get_accuracy_def)

lemma train_on_minibatch_forget:
  "train_on_minibatch tb X Y (forget_hidden s)
     = map_sum id forget_hidden (train_on_minibatch tb X Y s)"
proof -
  have m: "model (forget_hidden s) = (model s)\<lparr>hidden := None\<rparr>"
    and o: "optimizer (forget_hidden s) = optimizer s"
    and l: "train_running_loss (forget_hidden s) = train_running_loss s"
    and a: "train_acc (forget_hidden s) = train_acc s"
    by (simp_all add: forget_hidden_def)
  show ?thesis
    unfolding train_on_minibatch_def m o l a
    by (simp add: Let_def forget_hidden_def forward_ignores_hidden get_accuracy_ignores_hidden
        forward_ignores_hidden' get_accuracy_ignores_hidden'
        split: sum.splits prod.splits)
qed

lemma for_loop_forget:
  assumes "\<And>i s. g i (forget_hidden s) = map_sum id forget_hidden (f i s)"
  shows "for_loop js g (forget_hidden s) = map_sum id forget_hidden (for_loop js f s)"
proof (induction js arbitrary: s)
  case Nil
  show ?case by simp
next
  case (Cons i js)
  show ?case
  proof (cases "f i s")
    case (Inl e)
    then show ?thesis using assms[of i s] by simp
  next
    case (Inr s')
    then show ?thesis using assms[of i s] Cons.IH[of s'] by simp
  qed
qed

lemma run_batches_forget:
  "run_batches tb g (forget_hidden s) = map_sum id forget_hidden (run_batches tb g s)"
  unfolding run_batches_def
  by (rule for_loop_forget) (simp add: minibatch_step_def train_on_minibatch_forget)

lemma epoch_print_forget:
  "epoch_print tb g e (forget_hidden s) = map_sum id forget_hidden (epoch_print tb g e s)"
  by (simp add: epoch_print_def forget_hidden_def split: sum.splits)

lemma epoch_reset_forget:
  "epoch_reset_no_reinit (forget_hidden s) = forget_hidden (epoch_reset s)"
  "epoch_reset_no_reinit (forget_hidden s) = forget_hidden (epoch_reset_no_reinit s)"
  by (simp_all add: epoch_reset_def epoch_reset_no_reinit_def forget_hidden_def)

lemma run_epoch_forget:
  "run_epoch_no_reinit tb g e (forget_hidden s) = map_sum id forget_hidden (run_epoch tb g e s)"
proof (cases "run_batches tb g (epoch_reset s)")
  case (Inl x)
  then show ?thesis
    by (simp add: run_epoch_no_reinit_def run_epoch_def epoch_reset_forget(1) run_batches_forget)
next
  case (Inr s')
  then show ?thesis
    by (simp add: run_epoch_no_reinit_def run_epoch_def epoch_reset_forget(1) run_batches_forget
        epoch_print_forget)
qed

lemma run_epoch_no_reinit_forget:
  "run_epoch_no_reinit tb g e (forget_hidden s)
     = map_sum id forget_hidden (run_epoch_no_reinit tb g e s)"
proof (cases "run_batches tb g (epoch_reset_no_reinit s)")
  case (Inl x)
  then show ?thesis
    by (simp add: run_epoch_no_reinit_def epoch_reset_forget(2) run_batches_forget)
next
  case (Inr s')
  then show ?thesis
    by (simp add: run_epoch_no_reinit_def epoch_reset_forget(2) run_batches_forget
        epoch_print_forget)
qed

lemma observable_forget: "observable (map_sum id forget_hidden r) = observable r"
  by (cases r) (simp_all add: observable_def forget_hidden_def)

text \<open>
  C4. The assignment \<open>model.hidden = model.init_hidden()\<close> at the start of each epoch
  is dead code. \<open>forward\<close> calls the recurrent layer with the input alone, so its
  result does not depend on the \<open>hidden\<close> attribute; and the training loop and the
  loop without the assignment end with the same exception, or with the same weights,
  optimizer state, accumulated loss and accuracy and the same printed lines.
\<close>

theorem hidden_reinit_is_dead_code:
  "forward tb (self\<lparr>hidden := h\<rparr>) input = forward tb self input
   \<and> observable (training_loop tb g s) = observable (training_loop_no_reinit tb g s)"
proof
  show "forward tb (self\<lparr>hidden := h\<rparr>) input = forward tb self input"
    by (rule forward_ignores_hidden)
  have a: "training_loop_no_reinit tb g (forget_hidden s)
      = map_sum id forget_hidden (training_loop tb g s)"
    unfolding training_loop_no_reinit_def training_loop_def
    by (rule for_loop_forget) (rule run_epoch_forget)
  have b: "training_loop_no_reinit tb g (forget_hidden s)
      = map_sum id forget_hidden (training_loop_no_reinit tb g s)"
    unfolding training_loop_no_reinit_def
    by (rule for_loop_forget) (rule run_epoch_no_reinit_forget)
  have "observable (training_loop tb g s)
      = observable (map_sum id forget_hidden (training_loop tb g s))"
    by (simp only: observable_forget)
  also have "\<dots> = observable (map_sum id forget_hidden (training_loop_no_reinit tb g s))"
    using a b by simp
  also have "\<dots> = observable (training_loop_no_reinit tb g s)"
    by (simp only: observable_forget)
  finally show "observable (training_loop tb g s) = observable (training_loop_no_reinit tb g s)" .
qed

section \<open>Epochs and their lines\<close>

lemma train_on_minibatch_stdout:
  "train_on_minibatch tb X Y s = Inr s' \<Longrightarrow> stdout s' = stdout s"
  by (auto simp: train_on_minibatch_def Let_def split: sum.splits prod.splits)

lemma run_batches_stdout:
  assumes "run_batches tb g s = Inr s'"
  shows "stdout s' = stdout s"
proof (rule for_loop_preserves[where f = stdout and body = "minibatch_step tb g"
      and js = "py_range (num_batches g)"])
  show "for_loop (py_range (num_batches g)) (minibatch_step tb g) s = Inr s'"
    using assms by (simp add: run_batches_def)
next
  fix i s s' assume "minibatch_step tb g i s = Inr s'"
  then show "stdout s' = stdout s"
    unfolding minibatch_step_def by (rule train_on_minibatch_stdout)
qed

lemma float_div_int_Inr: "float_div_int x n = Inr y \<Longrightarrow> 0 < n"
  by (cases n) simp_all

lemma float_div_int_pos: "0 < n \<Longrightarrow> \<exists>y. float_div_int x n = Inr y"
  by (cases n; cases x) simp_all

lemma run_epoch_Inr:
  assumes "run_epoch tb g e s = Inr s'"
  shows "0 < num_batches g
     \<and> (\<exists>s_end l a. run_batches tb g (epoch_reset s) = Inr s_end
          \<and> float_div_int (train_running_loss s_end) (num_batches g) = Inr l
          \<and> float_div_int (train_acc s_end) (num_batches g) = Inr a
          \<and> stdout s' = stdout s @ [epoch_line tb e l a])"
proof -
  from assms obtain sb where sb: "run_batches tb g (epoch_reset s) = Inr sb"
    and p: "epoch_print tb g e sb = Inr s'"
    by (auto simp: run_epoch_def split: sum.splits)
  from p obtain l a where l: "float_div_int (train_running_loss sb) (num_batches g) = Inr l"
    and a: "float_div_int (train_acc sb) (num_batches g) = Inr a"
    and s': "s' = sb\<lparr>stdout := stdout sb @ [epoch_line tb e l a]\<rparr>"
    by (auto simp: epoch_print_def split: sum.splits)
  have "stdout sb = stdout s"
    using run_batches_stdout[OF sb] by (simp add: epoch_reset_def)
  then have "stdout s' = stdout s @ [epoch_line tb e l a]" using s' by simp
  then show ?thesis using sb l a float_div_int_Inr[OF l] by blast
qed

lemma epochs_report:
  "for_loop [0..<k] (run_epoch tb g) s = Inr s' \<Longrightarrow>
   \<exists>lines. stdout s' = stdout s @ lines \<and> length lines = k
      \<and> (\<forall>e<k. epoch_report tb g s e (lines ! e))"
proof (induction k arbitrary: s')
  case 0
  then show ?case by simp
next
  case (Suc k)
  from Suc.prems obtain sk where sk: "for_loop [0..<k] (run_epoch tb g) s = Inr sk"
    and last: "run_epoch tb g k sk = Inr s'"
    by (auto simp: for_loop_append split: sum.splits)
  from Suc.IH[OF sk] obtain lines where lines: "stdout sk = stdout s @ lines" "length lines = k"
    "\<forall>e<k. epoch_report tb g s e (lines ! e)" by blast
  from run_epoch_Inr[OF last] obtain s_end l a where
    e: "run_batches tb g (epoch_reset sk) = Inr s_end"
       "float_div_int (train_running_loss s_end) (num_batches g) = Inr l"
       "float_div_int (train_acc s_end) (num_batches g) = Inr a"
       "stdout s' = stdout sk @ [epoch_line tb k l a]" by blast
  let ?lines = "lines @ [epoch_line tb k l a]"
  have "epoch_report tb g s k (epoch_line tb k l a)"
    unfolding epoch_report_def using sk e(1,2,3) by (auto simp: py_range_def epoch_line_def)
  then have "\<forall>e<Suc k. epoch_report tb g s e (?lines ! e)"
    using lines(2,3) by (auto simp: less_Suc_eq nth_append)
  moreover have "stdout s' = stdout s @ ?lines" using e(4) lines(1) by simp
  moreover have "length ?lines = Suc k" using lines(2) by simp
  ultimately show ?case by blast
qed

lemma training_loop_zero_batches:
  assumes "num_batches g = 0"
  shows "training_loop tb g s = Inl ZeroDivisionError"
proof -
  have u: "[0..<num_epochs] = 0 # [1..<num_epochs]"
    by (simp add: num_epochs_def upt_conv_Cons)
  have "run_epoch tb g 0 s = Inl ZeroDivisionError"
    by (simp add: run_epoch_def run_batches_def py_range_def epoch_print_def assms)
  then show ?thesis by (simp add: training_loop_def py_range_def u)
qed

lemma training_loop_total:
  assumes "0 < num_batches g"
    and "\<And>i s. i < num_batches g \<Longrightarrow> \<exists>s'. minibatch_step tb g i s = Inr s'"
  shows "\<exists>s'. training_loop tb g s = Inr s'"
  unfolding training_loop_def
proof (rule for_loop_total)
  fix e s
  obtain sb where sb: "run_batches tb g (epoch_reset s) = Inr sb"
    using for_loop_total[of "py_range (num_batches g)" "minibatch_step tb g" "epoch_reset s"]
      assms(2) by (auto simp: run_batches_def py_range_def)
  obtain l where l: "float_div_int (train_running_loss sb) (num_batches g) = Inr l"
    using float_div_int_pos[OF assms(1)] by blast
  obtain a where a: "float_div_int (train_acc sb) (num_batches g) = Inr a"
    using float_div_int_pos[OF assms(1)] by blast
  show "\<exists>s'. run_epoch tb g e s = Inr s'"
    by (simp add: run_epoch_def sb epoch_print_def l a)
qed

text \<open>
  C8, as amended. A run of the training loop in which no exception is raised runs
  exactly 400 epochs and prints one line for each, after its minibatches: the line of
  \<open>epoch_report\<close>,
  \<open>Epoch:  <int> | NLLoss: <float.4f> | Train Accuracy: <float.2f>\<close> with two
  spaces after \<open>Epoch:\<close> and one after the other colons, where the two floats are the
  epoch's accumulated loss and accuracy, each divided by \<open>num_batches\<close>. With at
  least 35 training examples, no exception is raised when no minibatch step raises one.
\<close>

theorem training_loop_epochs:
  "(training_loop tb g s = Inr s' \<longrightarrow>
      (\<exists>lines. stdout s' = stdout s @ lines \<and> length lines = 400
          \<and> (\<forall>e<400. epoch_report tb g s e (lines ! e))))
   \<and> (35 \<le> length (train_X g)
        \<and> (\<forall>i s. i < num_batches g \<longrightarrow> (\<exists>s1. minibatch_step tb g i s = Inr s1))
      \<longrightarrow> (\<exists>s1. training_loop tb g s = Inr s1))"
proof (intro conjI impI)
  assume "training_loop tb g s = Inr s'"
  then have "for_loop [0..<400] (run_epoch tb g) s = Inr s'"
    by (simp add: training_loop_def py_range_def num_epochs_def)
  then show "\<exists>lines. stdout s' = stdout s @ lines \<and> length lines = 400
            \<and> (\<forall>e<400. epoch_report tb g s e (lines ! e))"
    by (rule epochs_report)
next
  assume a: "35 \<le> length (train_X g)
        \<and> (\<forall>i s. i < num_batches g \<longrightarrow> (\<exists>s1. minibatch_step tb g i s = Inr s1))"
  then have "0 < num_batches g" by (simp add: num_batches_div div_greater_zero_iff)
  then show "\<exists>s1. training_loop tb g s = Inr s1"
    using a by (intro training_loop_total) auto
qed

lemma example_slices:
  "py_slice 0 35 (train_X example_tensors) = replicate 35 [[0]]"
  "py_slice 0 35 (train_Y example_tensors) = replicate 35 [1]"
  by (simp_all add: py_slice_def example_tensors_def)

lemma example_permute: "permute_1_0_2 (replicate 35 [[0]]) = [replicate 35 [0]]"
proof -
  have "transpose (replicate 35 [[0::real]])
      = map (\<lambda>i. map (\<lambda>j. replicate 35 [[0::real]] ! j ! i) [0..<length (replicate 35 [[0::real]])])
          [0..<1]"
    by (rule transpose_rectangle) simp_all
  also have "\<dots> = [map (\<lambda>j. [0]) [0..<35]]" by simp
  also have "\<dots> = [replicate 35 [0]]" by (simp add: map_replicate_const)
  finally show ?thesis by (simp add: permute_1_0_2_def)
qed

lemma example_minibatch_step:
  "\<exists>s'. minibatch_step toy_torch example_tensors 0 s = Inr s'"
proof -
  have f: "\<And>m. forward toy_torch m [replicate 35 [0]] = Inr (replicate 35 [0])"
    by (simp add: forward_def toy_torch_def py_last_def log_softmax_def log_softmax_row_def)
  have y: "torch_max_dim1 (replicate 35 [1::int]) = Inr (replicate 35 0)"
    by (simp add: torch_max_dim1_def argmax_def)
  have a: "\<And>m. \<exists>acc. get_accuracy m (replicate 35 [0]) (replicate 35 0) = Inr acc"
    by (simp add: get_accuracy_def torch_max_dim1_def)
  have n: "\<And>p t. NLLLoss toy_torch p t = Inr (Finite 1)" by (simp add: toy_torch_def)
  have b: "\<And>opt f w. backward_step toy_torch opt f w = (Suc opt, w)" by (simp add: toy_torch_def)
  obtain acc where acc: "get_accuracy ((model s)\<lparr>weights := ()\<rparr>) (replicate 35 [0])
      (replicate 35 0) = Inr acc" using a by blast
  show ?thesis
    by (simp add: minibatch_step_def main_batch_size_def example_slices train_on_minibatch_def
        example_permute f y n b acc Let_def)
qed

theorem training_loop_epochs_witness:
  "35 \<le> length (train_X example_tensors)
   \<and> (\<exists>s'. training_loop toy_torch example_tensors (initial_state () 0) = Inr s'
         \<and> length (stdout s') = 400
         \<and> epoch_report toy_torch example_tensors (initial_state () 0) 399 (stdout s' ! 399))"
proof -
  have n: "35 \<le> length (train_X example_tensors)" by (simp add: example_tensors_def)
  have nb: "num_batches example_tensors = 1" by (simp add: num_batches_div example_tensors_def)
  have t: "\<forall>i s. i < num_batches example_tensors \<longrightarrow>
      (\<exists>s1. minibatch_step toy_torch example_tensors i s = Inr s1)"
    using example_minibatch_step by (simp add: nb)
  obtain s' where s': "training_loop toy_torch example_tensors (initial_state () 0) = Inr s'"
    using training_loop_epochs[of toy_torch example_tensors "initial_state () 0"] n t by blast
  obtain lines where l: "stdout s' = stdout (initial_state () (0::nat)) @ lines" "length lines = 400"
    "\<forall>e<400. epoch_report toy_torch example_tensors (initial_state () 0) e (lines ! e)"
    using training_loop_epochs[of toy_torch example_tensors "initial_state () 0" s', THEN conjunct1]
      s' by auto
  have "stdout s' = lines" using l(1) by (simp add: initial_state_def)
  then show ?thesis using n s' l(2,3) by auto
qed

text \<open>
  As the claim was stated, it fails twice: with 34 training examples \<open>num_batches\<close>
  is 0 and the first epoch ends in \<open>ZeroDivisionError\<close>, with nothing printed; and the
  line printed has two spaces after \<open>Epoch:\<close>, not one.
\<close>

theorem training_loop_epochs_counterexample:
  "training_loop toy_torch small_tensors (initial_state () 0) = Inl ZeroDivisionError
   \<and> epoch_line toy_torch 7 (Finite 1) (Finite 100) = ''Epoch:  7 | NLLoss: ? | Train Accuracy: ?''
   \<and> epoch_line toy_torch 7 (Finite 1) (Finite 100)
       \<noteq> single_space_line toy_torch 7 (Finite 1) (Finite 100)"
proof (intro conjI)
  have "num_batches small_tensors = 0" by (simp add: num_batches_div small_tensors_def)
  then show "training_loop toy_torch small_tensors (initial_state () 0) = Inl ZeroDivisionError"
    by (rule training_loop_zero_batches)
  show "epoch_line toy_torch 7 (Finite 1) (Finite 100) = ''Epoch:  7 | NLLoss: ? | Train Accuracy: ?''"
    by (simp add: epoch_line_def toy_torch_def format_d.simps)
  show "epoch_line toy_torch 7 (Finite 1) (Finite 100)
       \<noteq> single_space_line toy_torch 7 (Finite 1) (Finite 100)"
    by (simp add: epoch_line_def single_space_line_def toy_torch_def format_d.simps)
qed

end
